theory Spec2Isabelle
  imports Main "HOL-Library.Multiset" "HOL-Library.Product_Lexorder"
begin

section \<open>Data model of the Localizer\<close>

text \<open>
  The embedding follows the Go package \<open>localizer\<close> (file \<open>src/unnamed/part_001\<close>).
  API objects are records. The fields of the embedded \<open>metav1.ObjectMeta\<close> are inherited
  by record extension, as Go promotes them (\<open>glob.DeletionTimestamp\<close>, \<open>chart.UID\<close>);
  the embedded \<open>Feed\<close> of a declaration's spec is inherited the same way
  (\<open>loc.Spec.Kind\<close>, \<open>loc.Spec.Name\<close>).

  A \<open>metav1.Time\<close> is carried by the API with a resolution of one second: it is the
  number of seconds since the Unix epoch. Go's \<open>Time.Second()\<close> is the second offset
  within the minute, in the range 0..59.
\<close>

type_synonym Time = int

definition Second :: "Time \<Rightarrow> int" where
  "Second t = t mod 60"

type_synonym bytes = string

datatype error =
    NotFound string string
  | OtherError string
  | Aggregate "error list"

definition IsNotFound :: "error \<Rightarrow> bool" where
  "IsNotFound err = (case err of NotFound _ _ \<Rightarrow> True | _ \<Rightarrow> False)"

record OverrideConfig =
  ocName :: string
  ocType :: string
  ocValue :: string

record Feed =
  Kind :: string
  APIVersion :: string
  Namespace :: string
  Name :: string

record ObjectMeta =
  metaName :: string
  metaNamespace :: string
  UID :: string
  CreationTimestamp :: Time
  DeletionTimestamp :: "Time option"
  Finalizers :: "string list"

text \<open>
  \<open>LocalizationSpec\<close> and \<open>GlobalizationSpec\<close> are declared outside the files at hand;
  the code reads the same fields of both: the embedded \<open>Feed\<close>, \<open>OverridePolicy\<close> (a
  string type), \<open>Overrides\<close> and \<open>Priority\<close> (only compared, so an \<open>int\<close>).
\<close>

record OverrideSpec = Feed +
  OverridePolicy :: string
  Overrides :: "OverrideConfig list"
  Priority :: int

record Globalization = ObjectMeta +
  globSpec :: OverrideSpec

record Localization = ObjectMeta +
  locSpec :: OverrideSpec

record HelmChart = ObjectMeta +
  chartSpec :: string

record Manifest = ObjectMeta +
  Template :: bytes

record ChartReference =
  crNamespace :: string
  crName :: string

record DescriptionSpec =
  Deployer :: string
  Charts :: "ChartReference list"
  Raw :: "bytes list"

record Description = ObjectMeta +
  descSpec :: DescriptionSpec

text \<open>
  Modelled from the spec: the constants of the API package (\<open>appsapi\<close>, \<open>known\<close>) are
  declared outside the files at hand. The override policy is one of \<open>ApplyNow\<close> and
  \<open>ApplyLater\<close>, the deployer mode is the Helm or the generic one, and the engine has
  one finalizer token of its own; the properties below depend on these strings being
  distinct only.
\<close>

definition ApplyNow :: string where
  "ApplyNow = ''ApplyNow''"

definition ApplyLater :: string where
  "ApplyLater = ''ApplyLater''"

definition DescriptionHelmDeployer :: string where
  "DescriptionHelmDeployer = ''Helm''"

definition DescriptionGenericDeployer :: string where
  "DescriptionGenericDeployer = ''Generic''"

definition AppFinalizer :: string where
  "AppFinalizer = ''apps.clusternet.io/finalizer''"

text \<open>\<open>chartKind = appsapi.SchemeGroupVersion.WithKind("HelmChart")\<close>\<close>

definition chartKind_Kind :: string where
  "chartKind_Kind = ''HelmChart''"

definition chartKind_Version :: string where
  "chartKind_Version = ''v1alpha1''"

text \<open>
  A label selector built by \<open>labels.SelectorFromSet\<close> from a label set is the set itself,
  as a list of key-value pairs.
\<close>

type_synonym Selector = "(string \<times> string) list"

text \<open>
  The \<open>Localizer\<close> struct. The generated listers and the client are collaborators that
  are given as functions: a lister returns the objects it selects, in the order it yields
  them, or an error; the client's \<open>Update\<close> and the two callbacks return \<open>None\<close> for a nil
  error. \<open>manifestLister\<close> takes the namespace and the Feed from which
  \<open>utils.ListManifestsBySelector\<close> builds its selector. A lister builds its result by
  appending to a nil slice, so the nil slice of the code (\<open>manifests == nil\<close>) is the
  empty list.
\<close>

record Localizer =
  chartLister :: "string \<Rightarrow> string \<Rightarrow> error + HelmChart"
  manifestLister :: "string \<Rightarrow> Feed \<Rightarrow> error + Manifest list"
  globLister :: "Selector \<Rightarrow> error + Globalization list"
  locLister :: "string \<Rightarrow> Selector \<Rightarrow> error + Localization list"
  chartCallback :: "HelmChart \<Rightarrow> error option"
  manifestCallback :: "Manifest \<Rightarrow> error option"
  updateLocalization :: "string \<Rightarrow> Localization \<Rightarrow> error option"
  updateGlobalization :: "Globalization \<Rightarrow> error option"
  reservedNamespace :: string

definition ListManifestsBySelector ::
  "string \<Rightarrow> (string \<Rightarrow> Feed \<Rightarrow> error + Manifest list) \<Rightarrow> Feed \<Rightarrow> error + Manifest list" where
  "ListManifestsBySelector ns lister feed = lister ns feed"

section \<open>Ordering and merge: getOverrides\<close>

text \<open>
  \<open>sort.SliceStable\<close> sorts by the given \<open>less\<close> function and keeps elements that
  \<open>less\<close> does not separate in their original order: a stable insertion sort.
\<close>

fun insertStable :: "('a \<Rightarrow> 'a \<Rightarrow> bool) \<Rightarrow> 'a \<Rightarrow> 'a list \<Rightarrow> 'a list" where
  "insertStable lessf x [] = [x]"
| "insertStable lessf x (y # ys) =
     (if lessf y x then y # insertStable lessf x ys else x # y # ys)"

definition SliceStable :: "('a \<Rightarrow> 'a \<Rightarrow> bool) \<Rightarrow> 'a list \<Rightarrow> 'a list" where
  "SliceStable lessf xs = foldr (insertStable lessf) xs []"

text \<open>The two \<open>less\<close> closures of \<open>getOverrides\<close>.\<close>

definition globLess :: "Globalization \<Rightarrow> Globalization \<Rightarrow> bool" where
  "globLess gi gj =
     (if Priority (globSpec gi) = Priority (globSpec gj)
      then Second (CreationTimestamp gi) < Second (CreationTimestamp gj)
      else Priority (globSpec gi) < Priority (globSpec gj))"

definition locLess :: "Localization \<Rightarrow> Localization \<Rightarrow> bool" where
  "locLess li lj =
     (if Priority (locSpec li) = Priority (locSpec lj)
      then Second (CreationTimestamp li) < Second (CreationTimestamp lj)
      else Priority (locSpec li) < Priority (locSpec lj))"

text \<open>The two loops that append to \<open>allOverrideConfigs\<close>.\<close>

fun appendGlobs :: "Globalization list \<Rightarrow> OverrideConfig list \<Rightarrow> OverrideConfig list" where
  "appendGlobs [] allOverrideConfigs = allOverrideConfigs"
| "appendGlobs (glob # globs) allOverrideConfigs =
     (if DeletionTimestamp glob \<noteq> None then appendGlobs globs allOverrideConfigs
      else appendGlobs globs (allOverrideConfigs @ Overrides (globSpec glob)))"

fun appendLocs :: "Localization list \<Rightarrow> OverrideConfig list \<Rightarrow> OverrideConfig list" where
  "appendLocs [] allOverrideConfigs = allOverrideConfigs"
| "appendLocs (loc # locs) allOverrideConfigs =
     (if DeletionTimestamp loc \<noteq> None then appendLocs locs allOverrideConfigs
      else appendLocs locs (allOverrideConfigs @ Overrides (locSpec loc)))"

text \<open>The first switch of \<open>getOverrides\<close>: the UID of the Feed's target.\<close>

definition resolveUID :: "Localizer \<Rightarrow> Feed \<Rightarrow> error + string" where
  "resolveUID l feed =
     (if Kind feed = chartKind_Kind then
        (case chartLister l (Namespace feed) (Name feed) of
           Inl err \<Rightarrow> Inl err
         | Inr chart \<Rightarrow> Inr (UID chart))
      else
        (case ListManifestsBySelector (reservedNamespace l) (manifestLister l) feed of
           Inl err \<Rightarrow> Inl err
         | Inr manifests \<Rightarrow>
             (case manifests of
                [] \<Rightarrow> Inl (NotFound (Kind feed) (Name feed))
              | m # _ \<Rightarrow> Inr (UID m))))"

text \<open>The rest of \<open>getOverrides\<close>, from the listing of the Globalizations on.\<close>

definition overridesOf :: "Localizer \<Rightarrow> string \<Rightarrow> string \<Rightarrow> string \<Rightarrow> error + OverrideConfig list" where
  "overridesOf l namespace uid kind =
     (case globLister l [(uid, kind)] of
        Inl err \<Rightarrow> Inl err
      | Inr globs0 \<Rightarrow>
          (let globs = SliceStable globLess globs0 in
           case locLister l namespace [(uid, kind)] of
             Inl err \<Rightarrow> Inl err
           | Inr locs0 \<Rightarrow>
               (let locs = SliceStable locLess locs0 in
                Inr (appendLocs locs (appendGlobs globs [])))))"

definition getOverrides :: "Localizer \<Rightarrow> string \<Rightarrow> Feed \<Rightarrow> error + OverrideConfig list" where
  "getOverrides l namespace feed =
     (case resolveUID l feed of
        Inl err \<Rightarrow> Inl err
      | Inr uid \<Rightarrow> overridesOf l namespace uid (Kind feed))"

section \<open>Reconciliation handlers\<close>

text \<open>
  What a handler does to its collaborators is recorded as a trace of effects, in the
  order of the calls; the handler returns the trace and its error (\<open>None\<close> for nil).
  Logging is left out.
\<close>

datatype effect =
    ChartCallbackCalled HelmChart
  | ManifestCallbackCalled Manifest
  | WarningEvent string string
  | LocalizationUpdate string Localization
  | GlobalizationUpdate Globalization

text \<open>
  Modelled from the spec: \<open>utils.RemoveString\<close> is not among the files at hand; the
  handlers use it to "remove this engine's finalizer token from the object's finalizer
  set", so it drops every occurrence of the string.
\<close>

definition RemoveString :: "string list \<Rightarrow> string \<Rightarrow> string list" where
  "RemoveString slice s = filter (\<lambda>item. item \<noteq> s) slice"

text \<open>The code of \<open>handleLocalization\<close> after its switch (the switch was left by \<open>break\<close>
  or by the empty \<open>ApplyLater\<close> case); \<open>effs\<close> is the trace so far.\<close>

definition finishLocalization :: "Localizer \<Rightarrow> Localization \<Rightarrow> effect list \<Rightarrow> effect list \<times> error option" where
  "finishLocalization l loc effs =
     (if DeletionTimestamp loc \<noteq> None then
        (let locCopy = loc\<lparr>Finalizers := RemoveString (Finalizers loc) AppFinalizer\<rparr> in
         case updateLocalization l (metaNamespace locCopy) locCopy of
           Some err \<Rightarrow> (effs @ [LocalizationUpdate (metaNamespace locCopy) locCopy], Some err)
         | None \<Rightarrow> (effs @ [LocalizationUpdate (metaNamespace locCopy) locCopy], None))
      else (effs, None))"

definition handleLocalization :: "Localizer \<Rightarrow> Localization \<Rightarrow> effect list \<times> error option" where
  "handleLocalization l loc =
     (if OverridePolicy (locSpec loc) = ApplyNow then
        (if Kind (locSpec loc) = chartKind_Kind then
           (case chartLister l (Namespace (locSpec loc)) (Name (locSpec loc)) of
              Inl err \<Rightarrow>
                (if IsNotFound err then finishLocalization l loc [] else ([], Some err))
            | Inr chart \<Rightarrow>
                (case chartCallback l chart of
                   Some err \<Rightarrow> ([ChartCallbackCalled chart], Some err)
                 | None \<Rightarrow> finishLocalization l loc [ChartCallbackCalled chart]))
         else
           (case ListManifestsBySelector (reservedNamespace l) (manifestLister l)
                   (Feed.truncate (locSpec loc)) of
              Inl err \<Rightarrow> ([], Some err)
            | Inr manifests \<Rightarrow>
                (case manifests of
                   [] \<Rightarrow> finishLocalization l loc []
                 | m # _ \<Rightarrow>
                     (case manifestCallback l m of
                        Some err \<Rightarrow> ([ManifestCallbackCalled m], Some err)
                      | None \<Rightarrow> finishLocalization l loc [ManifestCallbackCalled m]))))
      else if OverridePolicy (locSpec loc) = ApplyLater then finishLocalization l loc []
      else
        ([WarningEvent ''InvalidOverridePolicy''
            (''unsupported OverridePolicy '' @ OverridePolicy (locSpec loc))], None))"

definition finishGlobalization :: "Localizer \<Rightarrow> Globalization \<Rightarrow> effect list \<Rightarrow> effect list \<times> error option" where
  "finishGlobalization l glob effs =
     (if DeletionTimestamp glob \<noteq> None then
        (let globCopy = glob\<lparr>Finalizers := RemoveString (Finalizers glob) AppFinalizer\<rparr> in
         (effs @ [GlobalizationUpdate globCopy], updateGlobalization l globCopy))
      else (effs, None))"

definition handleGlobalization :: "Localizer \<Rightarrow> Globalization \<Rightarrow> effect list \<times> error option" where
  "handleGlobalization l glob =
     (if OverridePolicy (globSpec glob) = ApplyNow then
        (if Kind (globSpec glob) = chartKind_Kind then
           (case chartLister l (Namespace (globSpec glob)) (Name (globSpec glob)) of
              Inl err \<Rightarrow>
                (if IsNotFound err then finishGlobalization l glob [] else ([], Some err))
            | Inr chart \<Rightarrow>
                (case chartCallback l chart of
                   Some err \<Rightarrow> ([ChartCallbackCalled chart], Some err)
                 | None \<Rightarrow> finishGlobalization l glob [ChartCallbackCalled chart]))
         else
           (case ListManifestsBySelector (reservedNamespace l) (manifestLister l)
                   (Feed.truncate (globSpec glob)) of
              Inl err \<Rightarrow> ([], Some err)
            | Inr manifests \<Rightarrow>
                (case manifests of
                   [] \<Rightarrow> finishGlobalization l glob []
                 | m # _ \<Rightarrow>
                     (case manifestCallback l m of
                        Some err \<Rightarrow> ([ManifestCallbackCalled m], Some err)
                      | None \<Rightarrow> finishGlobalization l glob [ManifestCallbackCalled m]))))
      else if OverridePolicy (globSpec glob) = ApplyLater then finishGlobalization l glob []
      else
        ([WarningEvent ''InvalidOverridePolicy''
            (''unsupported OverridePolicy '' @ OverridePolicy (globSpec glob))], None))"

section \<open>Description mutator\<close>

text \<open>
  \<open>applyOverrides\<close> (the patch engine, in another file of the package) and the JSON
  decoding of a raw object into the Feed of its kind, apiVersion, namespace and name are
  parameters of the embedding. \<open>utilerrors.NewAggregate\<close> is nil for an empty list.
\<close>

type_synonym Patcher = "bytes \<Rightarrow> OverrideConfig list \<Rightarrow> error + bytes"

type_synonym Decoder = "bytes \<Rightarrow> error + Feed"

definition NewAggregate :: "error list \<Rightarrow> error option" where
  "NewAggregate errlist = (if errlist = [] then None else Some (Aggregate errlist))"

text \<open>
  The loop of the Helm case over \<open>descCopy.Spec.Charts\<close>. The state is \<open>desc.Spec.Raw\<close>
  and \<open>allErrs\<close>; \<open>idx\<close> is the loop index, always within \<open>desc.Spec.Raw\<close>, which was
  allocated with one slot per chart.
\<close>

fun helmLoop :: "Patcher \<Rightarrow> Localizer \<Rightarrow> string \<Rightarrow> nat \<Rightarrow> ChartReference list
    \<Rightarrow> bytes list \<times> error list \<Rightarrow> bytes list \<times> error list" where
  "helmLoop applyOverrides l namespace idx [] st = st"
| "helmLoop applyOverrides l namespace idx (chartRef # rest) (raw, allErrs) =
     (case getOverrides l namespace
             \<lparr>Kind = chartKind_Kind, APIVersion = chartKind_Version,
              Namespace = crNamespace chartRef, Name = crName chartRef\<rparr> of
        Inl err \<Rightarrow> helmLoop applyOverrides l namespace (Suc idx) rest (raw, allErrs @ [err])
      | Inr overrides \<Rightarrow>
          (case applyOverrides '' '' overrides of
             Inl err \<Rightarrow> helmLoop applyOverrides l namespace (Suc idx) rest (raw, allErrs @ [err])
           | Inr result \<Rightarrow>
               helmLoop applyOverrides l namespace (Suc idx) rest (raw[idx := result], allErrs)))"

text \<open>The loop of the generic case over \<open>descCopy.Spec.Raw\<close>.\<close>

fun genericLoop :: "Patcher \<Rightarrow> Decoder \<Rightarrow> Localizer \<Rightarrow> string \<Rightarrow> nat \<Rightarrow> bytes list
    \<Rightarrow> bytes list \<times> error list \<Rightarrow> bytes list \<times> error list" where
  "genericLoop applyOverrides unmarshal l namespace idx [] st = st"
| "genericLoop applyOverrides unmarshal l namespace idx (rawObject # rest) (raw, allErrs) =
     (case unmarshal rawObject of
        Inl err \<Rightarrow>
          genericLoop applyOverrides unmarshal l namespace (Suc idx) rest (raw, allErrs @ [err])
      | Inr feed \<Rightarrow>
          (case getOverrides l namespace feed of
             Inl err \<Rightarrow>
               genericLoop applyOverrides unmarshal l namespace (Suc idx) rest (raw, allErrs @ [err])
           | Inr overrides \<Rightarrow>
               (case applyOverrides rawObject overrides of
                  Inl err \<Rightarrow>
                    genericLoop applyOverrides unmarshal l namespace (Suc idx) rest
                      (raw, allErrs @ [err])
                | Inr result \<Rightarrow>
                    genericLoop applyOverrides unmarshal l namespace (Suc idx) rest
                      (raw[idx := result], allErrs))))"

text \<open>
  \<open>ApplyOverridesToDescription\<close> mutates \<open>desc\<close> in place and returns an error: the
  embedding returns the Description after the call and the error. \<open>descCopy\<close> is a deep
  copy, so it has the value of \<open>desc\<close> at entry throughout.
\<close>

definition ApplyOverridesToDescription ::
    "Patcher \<Rightarrow> Decoder \<Rightarrow> Localizer \<Rightarrow> Description \<Rightarrow> Description \<times> error option" where
  "ApplyOverridesToDescription applyOverrides unmarshal l desc =
     (let descCopy = desc in
      if Deployer (descSpec descCopy) = DescriptionHelmDeployer then
        (case helmLoop applyOverrides l (metaNamespace descCopy) 0 (Charts (descSpec descCopy))
                (replicate (length (Charts (descSpec descCopy))) [], []) of
           (raw, allErrs) \<Rightarrow>
             (desc\<lparr>descSpec := (descSpec desc)\<lparr>Raw := raw\<rparr>\<rparr>, NewAggregate allErrs))
      else if Deployer (descSpec descCopy) = DescriptionGenericDeployer then
        (case genericLoop applyOverrides unmarshal l (metaNamespace descCopy) 0
                (Raw (descSpec descCopy)) (Raw (descSpec desc), []) of
           (raw, allErrs) \<Rightarrow>
             (desc\<lparr>descSpec := (descSpec desc)\<lparr>Raw := raw\<rparr>\<rparr>, NewAggregate allErrs))
      else
        (desc, Some (OtherError (''unsupported deployer '' @ Deployer (descSpec descCopy)))))"

text \<open>
  The outcome of one entry, taken alone: what the body of each loop computes for it,
  an error or the patched payload.
\<close>

definition helmEntry :: "Patcher \<Rightarrow> Localizer \<Rightarrow> string \<Rightarrow> ChartReference \<Rightarrow> error + bytes" where
  "helmEntry applyOverrides l namespace chartRef =
     (case getOverrides l namespace
             \<lparr>Kind = chartKind_Kind, APIVersion = chartKind_Version,
              Namespace = crNamespace chartRef, Name = crName chartRef\<rparr> of
        Inl err \<Rightarrow> Inl err
      | Inr overrides \<Rightarrow> applyOverrides '' '' overrides)"

definition genericEntry :: "Patcher \<Rightarrow> Decoder \<Rightarrow> Localizer \<Rightarrow> string \<Rightarrow> bytes \<Rightarrow> error + bytes" where
  "genericEntry applyOverrides unmarshal l namespace rawObject =
     (case unmarshal rawObject of
        Inl err \<Rightarrow> Inl err
      | Inr feed \<Rightarrow>
          (case getOverrides l namespace feed of
             Inl err \<Rightarrow> Inl err
           | Inr overrides \<Rightarrow> applyOverrides rawObject overrides))"

text \<open>The errors among a list of outcomes, in order, and the payload of a slot after
  its entry's outcome.\<close>

fun errorsOf :: "(error + bytes) list \<Rightarrow> error list" where
  "errorsOf [] = []"
| "errorsOf (Inl err # rs) = err # errorsOf rs"
| "errorsOf (Inr _ # rs) = errorsOf rs"

fun slotAfter :: "bytes \<Rightarrow> error + bytes \<Rightarrow> bytes" where
  "slotAfter old (Inl _) = old"
| "slotAfter old (Inr result) = result"

section \<open>Notions used to state the properties\<close>

text \<open>
  The sort key that the two \<open>less\<close> closures compare, a declaration that is not pending
  deletion, the flattened overrides of a list of declarations, and what one declaration
  adds to the result of \<open>getOverrides\<close>.
\<close>

definition globKey :: "Globalization \<Rightarrow> int \<times> int" where
  "globKey g = (Priority (globSpec g), Second (CreationTimestamp g))"

definition locKey :: "Localization \<Rightarrow> int \<times> int" where
  "locKey x = (Priority (locSpec x), Second (CreationTimestamp x))"

definition activeGlob :: "Globalization \<Rightarrow> bool" where
  "activeGlob g = (DeletionTimestamp g = None)"

definition activeLoc :: "Localization \<Rightarrow> bool" where
  "activeLoc x = (DeletionTimestamp x = None)"

definition globOverrides :: "Globalization list \<Rightarrow> OverrideConfig list" where
  "globOverrides gs = concat (map (\<lambda>g. Overrides (globSpec g)) gs)"

definition locOverrides :: "Localization list \<Rightarrow> OverrideConfig list" where
  "locOverrides xs = concat (map (\<lambda>x. Overrides (locSpec x)) xs)"

definition globContribution :: "Globalization \<Rightarrow> OverrideConfig list" where
  "globContribution g = (if DeletionTimestamp g \<noteq> None then [] else Overrides (globSpec g))"

definition locContribution :: "Localization \<Rightarrow> OverrideConfig list" where
  "locContribution x = (if DeletionTimestamp x \<noteq> None then [] else Overrides (locSpec x))"

text \<open>The Localizer whose two declaration listers leave out what is pending deletion.\<close>

definition withoutPendingDeletion :: "Localizer \<Rightarrow> Localizer" where
  "withoutPendingDeletion l =
     l\<lparr>globLister := (\<lambda>sel. case globLister l sel of
                          Inl err \<Rightarrow> Inl err
                        | Inr globs \<Rightarrow> Inr (filter activeGlob globs)),
       locLister := (\<lambda>ns sel. case locLister l ns sel of
                          Inl err \<Rightarrow> Inl err
                        | Inr locs \<Rightarrow> Inr (filter activeLoc locs))\<rparr>"

text \<open>
  The policy switch of a handler is left without a \<open>return\<close>: the policy is
  \<open>ApplyLater\<close>, or it is \<open>ApplyNow\<close> and the target is not found or its callback
  returns nil.
\<close>

definition switchCompletes :: "Localizer \<Rightarrow> OverrideSpec \<Rightarrow> bool" where
  "switchCompletes l spec =
     (if OverridePolicy spec = ApplyNow then
        (if Kind spec = chartKind_Kind then
           (case chartLister l (Namespace spec) (Name spec) of
              Inl err \<Rightarrow> IsNotFound err
            | Inr chart \<Rightarrow> chartCallback l chart = None)
         else
           (case manifestLister l (reservedNamespace l) (Feed.truncate spec) of
              Inl err \<Rightarrow> False
            | Inr manifests \<Rightarrow>
                (case manifests of [] \<Rightarrow> True | m # _ \<Rightarrow> manifestCallback l m = None)))
      else OverridePolicy spec = ApplyLater)"

text \<open>The callbacks that the policy switch invokes.\<close>

definition switchEffects :: "Localizer \<Rightarrow> OverrideSpec \<Rightarrow> effect list" where
  "switchEffects l spec =
     (if OverridePolicy spec = ApplyNow then
        (if Kind spec = chartKind_Kind then
           (case chartLister l (Namespace spec) (Name spec) of
              Inl err \<Rightarrow> []
            | Inr chart \<Rightarrow> [ChartCallbackCalled chart])
         else
           (case manifestLister l (reservedNamespace l) (Feed.truncate spec) of
              Inl err \<Rightarrow> []
            | Inr manifests \<Rightarrow>
                (case manifests of [] \<Rightarrow> [] | m # _ \<Rightarrow> [ManifestCallbackCalled m])))
      else [])"

text \<open>The target artifact of a declaration does not exist.\<close>

definition targetAbsent :: "Localizer \<Rightarrow> OverrideSpec \<Rightarrow> bool" where
  "targetAbsent l spec =
     (if Kind spec = chartKind_Kind then
        (case chartLister l (Namespace spec) (Name spec) of
           Inl err \<Rightarrow> IsNotFound err
         | Inr chart \<Rightarrow> False)
      else
        (case manifestLister l (reservedNamespace l) (Feed.truncate spec) of
           Inl err \<Rightarrow> False
         | Inr manifests \<Rightarrow> manifests = []))"

definition isUpdate :: "effect \<Rightarrow> bool" where
  "isUpdate e = (case e of LocalizationUpdate _ _ \<Rightarrow> True | GlobalizationUpdate _ \<Rightarrow> True | _ \<Rightarrow> False)"

definition withoutFinalizer :: "'a ObjectMeta_scheme \<Rightarrow> 'a ObjectMeta_scheme" where
  "withoutFinalizer obj = obj\<lparr>Finalizers := RemoveString (Finalizers obj) AppFinalizer\<rparr>"

section \<open>Sample objects\<close>

text \<open>
  A hub with one chart \<open>default/nginx\<close> and one manifest \<open>web\<close> in the reserved
  namespace; the declarations indexed for the chart are given, one Globalization is
  indexed for the manifest. The client's \<open>Update\<close> returns \<open>upd\<close>.
\<close>

definition ovA :: OverrideConfig where
  "ovA = \<lparr>ocName = ''replicas-1'', ocType = ''JSONPatch'', ocValue = ''a''\<rparr>"

definition ovB :: OverrideConfig where
  "ovB = \<lparr>ocName = ''replicas-3'', ocType = ''JSONPatch'', ocValue = ''b''\<rparr>"

definition ovC :: OverrideConfig where
  "ovC = \<lparr>ocName = ''label'', ocType = ''MergePatch'', ocValue = ''c''\<rparr>"

definition ovD :: OverrideConfig where
  "ovD = \<lparr>ocName = ''values'', ocType = ''Helm'', ocValue = ''d''\<rparr>"

definition exChart :: HelmChart where
  "exChart = \<lparr>metaName = ''nginx'', metaNamespace = ''default'', UID = ''uid-chart'',
     CreationTimestamp = 0, DeletionTimestamp = None, Finalizers = [], chartSpec = ''stable''\<rparr>"

definition exManifest :: Manifest where
  "exManifest = \<lparr>metaName = ''web'', metaNamespace = ''reserved'', UID = ''uid-manifest'',
     CreationTimestamp = 0, DeletionTimestamp = None, Finalizers = [], Template = ''{}''\<rparr>"

definition mkSpec :: "string \<Rightarrow> string \<Rightarrow> string \<Rightarrow> OverrideConfig list \<Rightarrow> int \<Rightarrow> OverrideSpec" where
  "mkSpec kind name policy ovs prio =
     \<lparr>Kind = kind, APIVersion = ''v1alpha1'', Namespace = ''default'', Name = name,
      OverridePolicy = policy, Overrides = ovs, Priority = prio\<rparr>"

definition mkGlob :: "string \<Rightarrow> Time \<Rightarrow> Time option \<Rightarrow> OverrideSpec \<Rightarrow> Globalization" where
  "mkGlob name created deleted spec =
     \<lparr>metaName = name, metaNamespace = ''cluster'', UID = name, CreationTimestamp = created,
      DeletionTimestamp = deleted, Finalizers = [AppFinalizer, ''other''], globSpec = spec\<rparr>"

definition mkLoc :: "string \<Rightarrow> Time \<Rightarrow> Time option \<Rightarrow> OverrideSpec \<Rightarrow> Localization" where
  "mkLoc name created deleted spec =
     \<lparr>metaName = name, metaNamespace = ''ns1'', UID = name, CreationTimestamp = created,
      DeletionTimestamp = deleted, Finalizers = [AppFinalizer, ''other''], locSpec = spec\<rparr>"

definition globOld :: Globalization where
  "globOld = mkGlob ''glob-old'' 59 None (mkSpec ''HelmChart'' ''nginx'' ''ApplyLater'' [ovA] 500)"

definition globNew :: Globalization where
  "globNew = mkGlob ''glob-new'' 60 None (mkSpec ''HelmChart'' ''nginx'' ''ApplyLater'' [ovB] 500)"

definition globGone :: Globalization where
  "globGone = mkGlob ''glob-gone'' 10 (Some 1000) (mkSpec ''HelmChart'' ''nginx'' ''ApplyLater'' [ovC] 100)"

definition globWeb :: Globalization where
  "globWeb = mkGlob ''glob-web'' 30 None (mkSpec ''Deployment'' ''web'' ''ApplyLater'' [ovA] 200)"

definition locOne :: Localization where
  "locOne = mkLoc ''loc-one'' 20 None (mkSpec ''HelmChart'' ''nginx'' ''ApplyLater'' [ovD] 300)"

definition mkLocalizer :: "Globalization list \<Rightarrow> Localization list \<Rightarrow> error option \<Rightarrow> Localizer" where
  "mkLocalizer gs ls upd =
     \<lparr>chartLister = (\<lambda>ns name. if ns = ''default'' \<and> name = ''nginx'' then Inr exChart
                        else Inl (NotFound ''helmcharts'' name)),
      manifestLister = (\<lambda>ns feed. if ns = ''reserved'' \<and> Name feed = ''web'' then Inr [exManifest]
                        else Inr []),
      globLister = (\<lambda>sel. if sel = [(''uid-chart'', ''HelmChart'')] then Inr gs
                        else if sel = [(''uid-manifest'', ''Deployment'')] then Inr [globWeb]
                        else Inr []),
      locLister = (\<lambda>ns sel. if ns = ''ns1'' \<and> sel = [(''uid-chart'', ''HelmChart'')] then Inr ls
                        else Inr []),
      chartCallback = (\<lambda>chart. None),
      manifestCallback = (\<lambda>m. None),
      updateLocalization = (\<lambda>ns loc. upd),
      updateGlobalization = (\<lambda>glob. upd),
      reservedNamespace = ''reserved''\<rparr>"

definition chartFeed :: Feed where
  "chartFeed = \<lparr>Kind = ''HelmChart'', APIVersion = ''v1alpha1'', Namespace = ''default'', Name = ''nginx''\<rparr>"

definition manifestFeed :: "string \<Rightarrow> Feed" where
  "manifestFeed name = \<lparr>Kind = ''Deployment'', APIVersion = ''apps/v1'', Namespace = ''default'', Name = name\<rparr>"

text \<open>Declarations pending deletion: one with a policy that is not supported, one that
  applies now to a chart that does not exist.\<close>

definition locBadPolicy :: Localization where
  "locBadPolicy = mkLoc ''loc-bad'' 5 (Some 9) (mkSpec ''HelmChart'' ''nginx'' ''Sometime'' [] 1)"

definition locNoTarget :: Localization where
  "locNoTarget = mkLoc ''loc-no-target'' 5 (Some 9) (mkSpec ''HelmChart'' ''absent'' ''ApplyNow'' [] 1)"

definition globLater :: Globalization where
  "globLater = mkGlob ''glob-later'' 5 (Some 9) (mkSpec ''Deployment'' ''web'' ''ApplyLater'' [] 1)"

definition globNoTarget :: Globalization where
  "globNoTarget = mkGlob ''glob-no-target'' 5 (Some 9) (mkSpec ''Deployment'' ''absent'' ''ApplyNow'' [] 1)"

text \<open>A patch engine that fails on an override of type \<open>Broken\<close> and otherwise appends
  the values to the document; a decoder that fails on \<open>junk\<close> and otherwise reads the
  document as the name of a Deployment.\<close>

definition exPatcher :: Patcher where
  "exPatcher doc ovs =
     (if list_ex (\<lambda>ov. ocType ov = ''Broken'') ovs then Inl (OtherError ''malformed'')
      else Inr (doc @ concat (map ocValue ovs)))"

definition exDecoder :: Decoder where
  "exDecoder doc = (if doc = ''junk'' then Inl (OtherError ''invalid json'') else Inr (manifestFeed doc))"

definition mkDescription :: "string \<Rightarrow> ChartReference list \<Rightarrow> bytes list \<Rightarrow> Description" where
  "mkDescription deployer charts raw =
     \<lparr>metaName = ''desc'', metaNamespace = ''ns1'', UID = ''uid-desc'', CreationTimestamp = 0,
      DeletionTimestamp = None, Finalizers = [],
      descSpec = \<lparr>Deployer = deployer, Charts = charts, Raw = raw\<rparr>\<rparr>"

definition helmDesc :: Description where
  "helmDesc = mkDescription ''Helm''
     [\<lparr>crNamespace = ''default'', crName = ''nginx''\<rparr>,
      \<lparr>crNamespace = ''default'', crName = ''absent''\<rparr>,
      \<lparr>crNamespace = ''default'', crName = ''nginx''\<rparr>]
     [''old'']"

definition genericDesc :: Description where
  "genericDesc = mkDescription ''Generic'' [] [''web'', ''junk'', ''gone'']"

section \<open>The stable sort and the two append loops\<close>

lemma insertStable_insort_key:
  assumes "\<And>a b. lessf a b = (f a < f b)"
  shows "insertStable lessf x ys = insort_key f x ys"
  by (induction ys) (auto simp: assms)

lemma SliceStable_sort_key:
  assumes "\<And>a b. lessf a b = (f a < f b)"
  shows "SliceStable lessf xs = sort_key f xs"
proof -
  have "insertStable lessf = insort_key f"
    using insertStable_insort_key [OF assms] by (intro ext)
  then show ?thesis by (simp add: SliceStable_def sort_key_def)
qed

lemma globLess_key: "globLess a b = (globKey a < globKey b)"
  by (auto simp: globLess_def globKey_def less_prod_def)

lemma locLess_key: "locLess a b = (locKey a < locKey b)"
  by (auto simp: locLess_def locKey_def less_prod_def)

lemma SliceStable_globLess: "SliceStable globLess xs = sort_key globKey xs"
  by (rule SliceStable_sort_key) (rule globLess_key)

lemma SliceStable_locLess: "SliceStable locLess xs = sort_key locKey xs"
  by (rule SliceStable_sort_key) (rule locLess_key)

lemma sorted_fst_of_sorted_key:
  "sorted (map f xs) \<Longrightarrow> sorted (map (\<lambda>x. fst (f x)) xs)" for f :: "'a \<Rightarrow> int \<times> int"
  by (induction xs) (auto simp: less_eq_prod_def)

lemma sorted_priority_glob: "sorted (map (\<lambda>g. Priority (globSpec g)) (SliceStable globLess xs))"
  using sorted_fst_of_sorted_key [of globKey "sort_key globKey xs"]
  by (simp add: SliceStable_globLess globKey_def)

lemma sorted_priority_loc: "sorted (map (\<lambda>x. Priority (locSpec x)) (SliceStable locLess xs))"
  using sorted_fst_of_sorted_key [of locKey "sort_key locKey xs"]
  by (simp add: SliceStable_locLess locKey_def)

lemma mset_SliceStable_glob: "mset (SliceStable globLess xs) = mset xs"
  by (simp add: SliceStable_globLess)

lemma mset_SliceStable_loc: "mset (SliceStable locLess xs) = mset xs"
  by (simp add: SliceStable_locLess)

lemma filter_SliceStable_glob:
  "filter P (SliceStable globLess xs) = SliceStable globLess (filter P xs)"
  by (simp add: SliceStable_globLess filter_sort)

lemma filter_SliceStable_loc:
  "filter P (SliceStable locLess xs) = SliceStable locLess (filter P xs)"
  by (simp add: SliceStable_locLess filter_sort)

lemma appendGlobs_eq:
  "appendGlobs gs acc = acc @ globOverrides (filter activeGlob gs)"
  by (induction gs arbitrary: acc) (auto simp: globOverrides_def activeGlob_def)

lemma appendLocs_eq:
  "appendLocs xs acc = acc @ locOverrides (filter activeLoc xs)"
  by (induction xs arbitrary: acc) (auto simp: locOverrides_def activeLoc_def)

lemma overridesOf_eq:
  assumes "globLister l [(uid, kind)] = Inr gs" and "locLister l ns [(uid, kind)] = Inr xs"
  shows "overridesOf l ns uid kind =
     Inr (globOverrides (SliceStable globLess (filter activeGlob gs))
          @ locOverrides (SliceStable locLess (filter activeLoc xs)))"
  using assms
  by (simp add: overridesOf_def appendGlobs_eq appendLocs_eq
      filter_SliceStable_glob filter_SliceStable_loc)

lemmas fixture_defs = ovA_def exChart_def exManifest_def mkSpec_def mkGlob_def mkLoc_def
  globWeb_def mkLocalizer_def chartFeed_def manifestFeed_def chartKind_Kind_def
  chartKind_Version_def

lemma resolve_chartFeed: "resolveUID (mkLocalizer gs xs upd) chartFeed = Inr ''uid-chart''"
  by (simp add: resolveUID_def fixture_defs)

section \<open>Order of the merged overrides\<close>

text \<open>
  C1 (as amended). For every resolved target and consuming namespace, the sequence
  returned by \<open>getOverrides\<close> is the flattened overrides of the matching Globalizations
  that are not pending deletion, sorted ascending by priority, followed by the flattened
  overrides of the matching Localizations of that namespace that are not pending
  deletion, sorted ascending by priority; each declaration's own order of overrides is
  kept. The sorted lists are rearrangements of the selected declarations.
\<close>

theorem getOverrides_order:
  assumes "resolveUID l feed = Inr uid"
    and "globLister l [(uid, Kind feed)] = Inr gs"
    and "locLister l namespace [(uid, Kind feed)] = Inr xs"
  shows "getOverrides l namespace feed =
           Inr (globOverrides (SliceStable globLess (filter activeGlob gs))
                @ locOverrides (SliceStable locLess (filter activeLoc xs)))
         \<and> sorted (map (\<lambda>g. Priority (globSpec g)) (SliceStable globLess (filter activeGlob gs)))
         \<and> mset (SliceStable globLess (filter activeGlob gs)) = mset (filter activeGlob gs)
         \<and> sorted (map (\<lambda>x. Priority (locSpec x)) (SliceStable locLess (filter activeLoc xs)))
         \<and> mset (SliceStable locLess (filter activeLoc xs)) = mset (filter activeLoc xs)"
  using assms overridesOf_eq [of l uid "Kind feed" gs namespace xs]
  by (simp add: getOverrides_def sorted_priority_glob sorted_priority_loc
      mset_SliceStable_glob mset_SliceStable_loc)

theorem getOverrides_order_witness:
  "resolveUID (mkLocalizer [globNew, globGone] [locOne] None) chartFeed = Inr ''uid-chart''
   \<and> getOverrides (mkLocalizer [globNew, globGone] [locOne] None) ''ns1'' chartFeed = Inr [ovB, ovD]"
proof -
  let ?l = "mkLocalizer [globNew, globGone] [locOne] None"
  have r: "resolveUID ?l chartFeed = Inr ''uid-chart''" by (rule resolve_chartFeed)
  have g: "globLister ?l [(''uid-chart'', Kind chartFeed)] = Inr [globNew, globGone]"
    by (simp add: fixture_defs)
  have k: "locLister ?l ''ns1'' [(''uid-chart'', Kind chartFeed)] = Inr [locOne]"
    by (simp add: fixture_defs)
  show ?thesis
    using r getOverrides_order [OF r g k]
    by (simp add: activeGlob_def activeLoc_def globOverrides_def locOverrides_def
        SliceStable_def fixture_defs
        globNew_def globGone_def locOne_def)
qed

text \<open>
  The claim as it was stated, with all matching Globalizations, fails: the Globalization
  \<open>globGone\<close> is selected for the chart and has the override \<open>ovC\<close>, which is not in
  the result.
\<close>

theorem getOverrides_all_matching_counterexample:
  "globLister (mkLocalizer [globNew, globGone] [locOne] None) [(''uid-chart'', ''HelmChart'')]
     = Inr [globNew, globGone]
   \<and> Overrides (globSpec globGone) = [ovC]
   \<and> getOverrides (mkLocalizer [globNew, globGone] [locOne] None) ''ns1'' chartFeed = Inr [ovB, ovD]
   \<and> ovC \<notin> set [ovB, ovD]"
  by (simp add: getOverrides_def resolveUID_def overridesOf_def ListManifestsBySelector_def
      SliceStable_def globLess_def locLess_def Second_def fixture_defs
      globNew_def globGone_def locOne_def ovB_def ovC_def ovD_def)

text \<open>
  C2. Within one scope, of two declarations with equal priority the one with the earlier
  creationTimestamp is to come first. The code breaks the tie by
  \<open>CreationTimestamp.Second()\<close>, the second within the minute, and so does not keep
  this order: for two Globalizations of equal priority, \<open>globOld\<close> created at second 59
  and \<open>globNew\<close> one second later, listed in this order, it compares 59 against 0 and
  puts the overrides of the younger declaration first.
\<close>

theorem getOverrides_tie_by_second_of_minute:
  "Priority (globSpec globOld) = Priority (globSpec globNew)
   \<and> CreationTimestamp globOld < CreationTimestamp globNew
   \<and> getOverrides (mkLocalizer [globOld, globNew] [] None) ''ns1'' chartFeed
       = Inr (Overrides (globSpec globNew) @ Overrides (globSpec globOld))"
  by (simp add: getOverrides_def resolveUID_def overridesOf_def ListManifestsBySelector_def
      SliceStable_def globLess_def locLess_def Second_def fixture_defs
      globOld_def globNew_def)

section \<open>Declarations pending deletion\<close>

lemma globOverrides_active:
  "globOverrides (filter activeGlob gs) = concat (map globContribution gs)"
  by (induction gs) (auto simp: globOverrides_def activeGlob_def globContribution_def)

lemma locOverrides_active:
  "locOverrides (filter activeLoc xs) = concat (map locContribution xs)"
  by (induction xs) (auto simp: locOverrides_def activeLoc_def locContribution_def)

lemma resolveUID_withoutPendingDeletion:
  "resolveUID (withoutPendingDeletion l) feed = resolveUID l feed"
  by (simp add: resolveUID_def withoutPendingDeletion_def)

lemma overridesOf_withoutPendingDeletion:
  "overridesOf (withoutPendingDeletion l) ns uid kind = overridesOf l ns uid kind"
proof (cases "globLister l [(uid, kind)]")
  case (Inl err)
  then show ?thesis by (simp add: overridesOf_def withoutPendingDeletion_def)
next
  case (Inr gs)
  note gs = this
  show ?thesis
  proof (cases "locLister l ns [(uid, kind)]")
    case (Inl err)
    with gs show ?thesis by (simp add: overridesOf_def withoutPendingDeletion_def)
  next
    case (Inr xs)
    have g': "globLister (withoutPendingDeletion l) [(uid, kind)] = Inr (filter activeGlob gs)"
      using gs by (simp add: withoutPendingDeletion_def)
    have x': "locLister (withoutPendingDeletion l) ns [(uid, kind)] = Inr (filter activeLoc xs)"
      using Inr by (simp add: withoutPendingDeletion_def)
    show ?thesis
      by (simp add: overridesOf_eq [OF gs Inr] overridesOf_eq [OF g' x'])
  qed
qed

text \<open>
  C4. Every selected Globalization or Localization adds its contribution to the result
  of \<open>getOverrides\<close>, in the sorted order, and the contribution of a declaration with a
  deletionTimestamp is empty, although the lister returned it. So the result is the one
  obtained when the listers leave the declarations pending deletion out.
\<close>

theorem getOverrides_skips_pending_deletion:
  assumes "resolveUID l feed = Inr uid"
    and "globLister l [(uid, Kind feed)] = Inr gs"
    and "locLister l namespace [(uid, Kind feed)] = Inr xs"
  shows "getOverrides l namespace feed =
           Inr (concat (map globContribution (SliceStable globLess gs))
                @ concat (map locContribution (SliceStable locLess xs)))
         \<and> getOverrides (withoutPendingDeletion l) namespace feed = getOverrides l namespace feed
         \<and> (\<forall>g. DeletionTimestamp g \<noteq> None \<longrightarrow> globContribution g = [])
         \<and> (\<forall>x. DeletionTimestamp x \<noteq> None \<longrightarrow> locContribution x = [])"
proof -
  have "overridesOf l namespace uid (Kind feed) =
      Inr (concat (map globContribution (SliceStable globLess gs))
           @ concat (map locContribution (SliceStable locLess xs)))"
    using assms(2,3)
    by (simp add: overridesOf_def appendGlobs_eq appendLocs_eq
        globOverrides_active locOverrides_active)
  moreover have "getOverrides (withoutPendingDeletion l) namespace feed = getOverrides l namespace feed"
    using assms(1)
    by (simp add: getOverrides_def resolveUID_withoutPendingDeletion
        overridesOf_withoutPendingDeletion)
  ultimately show ?thesis
    using assms(1) by (simp add: getOverrides_def globContribution_def locContribution_def)
qed

theorem getOverrides_skips_pending_deletion_witness:
  "DeletionTimestamp globGone = Some 1000
   \<and> SliceStable globLess [globNew, globGone] = [globGone, globNew]
   \<and> globContribution globGone = []
   \<and> getOverrides (mkLocalizer [globNew, globGone] [locOne] None) ''ns1'' chartFeed = Inr [ovB, ovD]
   \<and> getOverrides (withoutPendingDeletion (mkLocalizer [globNew, globGone] [locOne] None))
        ''ns1'' chartFeed = Inr [ovB, ovD]"
proof -
  let ?l = "mkLocalizer [globNew, globGone] [locOne] None"
  have r: "resolveUID ?l chartFeed = Inr ''uid-chart''" by (rule resolve_chartFeed)
  have g: "globLister ?l [(''uid-chart'', Kind chartFeed)] = Inr [globNew, globGone]"
    by (simp add: fixture_defs)
  have k: "locLister ?l ''ns1'' [(''uid-chart'', Kind chartFeed)] = Inr [locOne]"
    by (simp add: fixture_defs)
  have s: "SliceStable globLess [globNew, globGone] = [globGone, globNew]"
    "SliceStable locLess [locOne] = [locOne]"
    by (simp_all add: SliceStable_def globLess_def fixture_defs
        globNew_def globGone_def locOne_def)
  have c: "globContribution globGone = []" "globContribution globNew = [ovB]"
    "locContribution locOne = [ovD]"
    by (simp_all add: globContribution_def locContribution_def fixture_defs
        globNew_def globGone_def locOne_def)
  have d: "DeletionTimestamp globGone = Some 1000" by (simp add: fixture_defs globGone_def)
  show ?thesis
    using getOverrides_skips_pending_deletion [OF r g k]
    by (simp add: s c d)
qed

section \<open>Resolution of the target\<close>

text \<open>
  C6. For a Feed whose kind is not the chart kind: when the manifest lister selects
  nothing in the reserved namespace, \<open>getOverrides\<close> returns a NotFound error with the
  Feed's kind and name; when it selects one manifest or more, the UID of the first one
  is the key of the selector that both declaration listers are queried with.
\<close>

theorem getOverrides_manifest_lookup:
  assumes "Kind feed \<noteq> chartKind_Kind"
  shows "(manifestLister l (reservedNamespace l) feed = Inr [] \<longrightarrow>
            getOverrides l namespace feed = Inl (NotFound (Kind feed) (Name feed))
            \<and> IsNotFound (NotFound (Kind feed) (Name feed)))
         \<and> (\<forall>m ms. manifestLister l (reservedNamespace l) feed = Inr (m # ms) \<longrightarrow>
              resolveUID l feed = Inr (UID m)
              \<and> getOverrides l namespace feed =
                  (case globLister l [(UID m, Kind feed)] of
                     Inl err \<Rightarrow> Inl err
                   | Inr globs \<Rightarrow>
                       (case locLister l namespace [(UID m, Kind feed)] of
                          Inl err \<Rightarrow> Inl err
                        | Inr locs \<Rightarrow>
                            Inr (appendLocs (SliceStable locLess locs)
                                   (appendGlobs (SliceStable globLess globs) [])))))"
  using assms
  by (auto simp: getOverrides_def resolveUID_def overridesOf_def ListManifestsBySelector_def
      IsNotFound_def Let_def split: sum.splits)

theorem getOverrides_manifest_lookup_witness:
  "Kind (manifestFeed ''gone'') \<noteq> chartKind_Kind
   \<and> manifestLister (mkLocalizer [globNew] [] None) ''reserved'' (manifestFeed ''gone'') = Inr []
   \<and> getOverrides (mkLocalizer [globNew] [] None) ''ns1'' (manifestFeed ''gone'')
        = Inl (NotFound ''Deployment'' ''gone'')
   \<and> manifestLister (mkLocalizer [globNew] [] None) ''reserved'' (manifestFeed ''web'')
        = Inr [exManifest]
   \<and> UID exManifest = ''uid-manifest''
   \<and> getOverrides (mkLocalizer [globNew] [] None) ''ns1'' (manifestFeed ''web'') = Inr [ovA]"
proof -
  let ?l = "mkLocalizer [globNew] [] None"
  have k1: "Kind (manifestFeed ''gone'') \<noteq> chartKind_Kind"
    and k2: "Kind (manifestFeed ''web'') \<noteq> chartKind_Kind"
    by (simp_all add: fixture_defs)
  have m1: "manifestLister ?l (reservedNamespace ?l) (manifestFeed ''gone'') = Inr []"
    by (simp add: fixture_defs)
  have m2: "manifestLister ?l (reservedNamespace ?l) (manifestFeed ''web'') = Inr [exManifest]"
    by (simp add: mkLocalizer_def manifestFeed_def)
  have r: "reservedNamespace ?l = ''reserved''" by (simp add: mkLocalizer_def)
  have g: "globLister ?l [(UID exManifest, Kind (manifestFeed ''web''))] = Inr [globWeb]"
    by (simp add: mkLocalizer_def manifestFeed_def exManifest_def)
  have x: "locLister ?l ''ns1'' [(UID exManifest, Kind (manifestFeed ''web''))] = Inr []"
    by (simp add: mkLocalizer_def manifestFeed_def exManifest_def)
  have a: "DeletionTimestamp globWeb = None" "Overrides (globSpec globWeb) = [ovA]"
    by (simp_all add: globWeb_def mkGlob_def mkSpec_def)
  have s: "SliceStable globLess [globWeb] = [globWeb]" "SliceStable locLess [] = []"
    by (simp_all add: SliceStable_def)
  from getOverrides_manifest_lookup [OF k1, of ?l "''ns1''"] m1
  have e1: "getOverrides ?l ''ns1'' (manifestFeed ''gone'') = Inl (NotFound ''Deployment'' ''gone'')"
    by (simp add: manifestFeed_def)
  from getOverrides_manifest_lookup [OF k2, of ?l "''ns1''"] m2
  have e2: "getOverrides ?l ''ns1'' (manifestFeed ''web'') = Inr [ovA]"
    by (simp add: g x a s)
  show ?thesis
    using k1 m1 m2 e1 e2 by (simp add: r exManifest_def)
qed

text \<open>
  C8. When the target resolves and the listers select no Globalization and no
  Localization, \<open>getOverrides\<close> returns the empty sequence and no error.
\<close>

theorem getOverrides_no_declarations:
  assumes "resolveUID l feed = Inr uid"
    and "globLister l [(uid, Kind feed)] = Inr []"
    and "locLister l namespace [(uid, Kind feed)] = Inr []"
  shows "getOverrides l namespace feed = Inr []"
  using assms by (simp add: getOverrides_def overridesOf_def SliceStable_def)

theorem getOverrides_no_declarations_witness:
  "resolveUID (mkLocalizer [] [] None) chartFeed = Inr ''uid-chart''
   \<and> globLister (mkLocalizer [] [] None) [(''uid-chart'', Kind chartFeed)] = Inr []
   \<and> locLister (mkLocalizer [] [] None) ''ns1'' [(''uid-chart'', Kind chartFeed)] = Inr []
   \<and> getOverrides (mkLocalizer [] [] None) ''ns1'' chartFeed = Inr []"
proof -
  let ?l = "mkLocalizer [] [] None"
  have r: "resolveUID ?l chartFeed = Inr ''uid-chart''" by (rule resolve_chartFeed)
  have g: "globLister ?l [(''uid-chart'', Kind chartFeed)] = Inr []"
    by (simp add: fixture_defs)
  have k: "locLister ?l ''ns1'' [(''uid-chart'', Kind chartFeed)] = Inr []"
    by (simp add: fixture_defs)
  show ?thesis
    using r g k getOverrides_no_declarations [OF r g k] by simp
qed

section \<open>The reconciliation handlers\<close>

lemma finishLocalization_pending:
  "DeletionTimestamp loc \<noteq> None \<Longrightarrow>
     finishLocalization l loc effs =
       (effs @ [LocalizationUpdate (metaNamespace loc) (withoutFinalizer loc)],
        updateLocalization l (metaNamespace loc) (withoutFinalizer loc))"
  by (auto simp: finishLocalization_def withoutFinalizer_def Let_def split: option.splits)

lemma finishGlobalization_pending:
  "DeletionTimestamp glob \<noteq> None \<Longrightarrow>
     finishGlobalization l glob effs =
       (effs @ [GlobalizationUpdate (withoutFinalizer glob)],
        updateGlobalization l (withoutFinalizer glob))"
  by (simp add: finishGlobalization_def withoutFinalizer_def Let_def)

lemma switchEffects_no_update: "filter isUpdate (switchEffects l spec) = []"
  by (auto simp: switchEffects_def isUpdate_def split: sum.splits list.splits)

lemma handleLocalization_completes:
  assumes "switchCompletes l (locSpec loc)"
  shows "handleLocalization l loc = finishLocalization l loc (switchEffects l (locSpec loc))"
proof (cases "OverridePolicy (locSpec loc) = ApplyNow")
  case False
  with assms show ?thesis
    by (simp add: switchCompletes_def switchEffects_def handleLocalization_def)
next
  case True
  note now = this
  show ?thesis
  proof (cases "Kind (locSpec loc) = chartKind_Kind")
    case True
    with assms now show ?thesis
      by (auto simp: switchCompletes_def switchEffects_def handleLocalization_def
          split: sum.splits option.splits)
  next
    case False
    with assms now show ?thesis
      by (auto simp: switchCompletes_def switchEffects_def handleLocalization_def
          ListManifestsBySelector_def split: sum.splits option.splits list.splits)
  qed
qed

lemma handleLocalization_returns_early:
  assumes "\<not> switchCompletes l (locSpec loc)"
  shows "filter isUpdate (fst (handleLocalization l loc)) = []"
proof (cases "OverridePolicy (locSpec loc) = ApplyNow")
  case False
  with assms show ?thesis
    by (simp add: switchCompletes_def handleLocalization_def isUpdate_def)
next
  case True
  note now = this
  show ?thesis
  proof (cases "Kind (locSpec loc) = chartKind_Kind")
    case True
    with assms now show ?thesis
      by (auto simp: switchCompletes_def handleLocalization_def isUpdate_def
          split: sum.splits option.splits)
  next
    case False
    with assms now show ?thesis
      by (auto simp: switchCompletes_def handleLocalization_def isUpdate_def
          ListManifestsBySelector_def split: sum.splits option.splits list.splits)
  qed
qed

lemma handleGlobalization_completes:
  assumes "switchCompletes l (globSpec glob)"
  shows "handleGlobalization l glob = finishGlobalization l glob (switchEffects l (globSpec glob))"
proof (cases "OverridePolicy (globSpec glob) = ApplyNow")
  case False
  with assms show ?thesis
    by (simp add: switchCompletes_def switchEffects_def handleGlobalization_def)
next
  case True
  note now = this
  show ?thesis
  proof (cases "Kind (globSpec glob) = chartKind_Kind")
    case True
    with assms now show ?thesis
      by (auto simp: switchCompletes_def switchEffects_def handleGlobalization_def
          split: sum.splits option.splits)
  next
    case False
    with assms now show ?thesis
      by (auto simp: switchCompletes_def switchEffects_def handleGlobalization_def
          ListManifestsBySelector_def split: sum.splits option.splits list.splits)
  qed
qed

lemma handleGlobalization_returns_early:
  assumes "\<not> switchCompletes l (globSpec glob)"
  shows "filter isUpdate (fst (handleGlobalization l glob)) = []"
proof (cases "OverridePolicy (globSpec glob) = ApplyNow")
  case False
  with assms show ?thesis
    by (simp add: switchCompletes_def handleGlobalization_def isUpdate_def)
next
  case True
  note now = this
  show ?thesis
  proof (cases "Kind (globSpec glob) = chartKind_Kind")
    case True
    with assms now show ?thesis
      by (auto simp: switchCompletes_def handleGlobalization_def isUpdate_def
          split: sum.splits option.splits)
  next
    case False
    with assms now show ?thesis
      by (auto simp: switchCompletes_def handleGlobalization_def isUpdate_def
          ListManifestsBySelector_def split: sum.splits option.splits list.splits)
  qed
qed

lemma handleLocalization_pending:
  assumes "DeletionTimestamp loc \<noteq> None"
  shows "filter isUpdate (fst (handleLocalization l loc)) =
           (if switchCompletes l (locSpec loc)
            then [LocalizationUpdate (metaNamespace loc) (withoutFinalizer loc)] else [])"
    and "switchCompletes l (locSpec loc) \<Longrightarrow>
           snd (handleLocalization l loc) =
             updateLocalization l (metaNamespace loc) (withoutFinalizer loc)"
proof -
  show "filter isUpdate (fst (handleLocalization l loc)) =
           (if switchCompletes l (locSpec loc)
            then [LocalizationUpdate (metaNamespace loc) (withoutFinalizer loc)] else [])"
  proof (cases "switchCompletes l (locSpec loc)")
    case True
    with assms show ?thesis
      by (simp add: handleLocalization_completes finishLocalization_pending switchEffects_no_update
          isUpdate_def)
  next
    case False
    then show ?thesis by (simp add: handleLocalization_returns_early)
  qed
next
  assume c: "switchCompletes l (locSpec loc)"
  with assms show "snd (handleLocalization l loc) =
      updateLocalization l (metaNamespace loc) (withoutFinalizer loc)"
    by (simp add: handleLocalization_completes finishLocalization_pending)
qed

lemma handleGlobalization_pending:
  assumes "DeletionTimestamp glob \<noteq> None"
  shows "filter isUpdate (fst (handleGlobalization l glob)) =
           (if switchCompletes l (globSpec glob)
            then [GlobalizationUpdate (withoutFinalizer glob)] else [])"
    and "switchCompletes l (globSpec glob) \<Longrightarrow>
           snd (handleGlobalization l glob) = updateGlobalization l (withoutFinalizer glob)"
proof -
  show "filter isUpdate (fst (handleGlobalization l glob)) =
           (if switchCompletes l (globSpec glob)
            then [GlobalizationUpdate (withoutFinalizer glob)] else [])"
  proof (cases "switchCompletes l (globSpec glob)")
    case True
    with assms show ?thesis
      by (simp add: handleGlobalization_completes finishGlobalization_pending switchEffects_no_update
          isUpdate_def)
  next
    case False
    then show ?thesis by (simp add: handleGlobalization_returns_early)
  qed
next
  assume c: "switchCompletes l (globSpec glob)"
  with assms show "snd (handleGlobalization l glob) =
      updateGlobalization l (withoutFinalizer glob)"
    by (simp add: handleGlobalization_completes finishGlobalization_pending)
qed

lemma withoutFinalizer_Finalizers:
  "AppFinalizer \<notin> set (Finalizers (withoutFinalizer obj))"
  by (simp add: withoutFinalizer_def RemoveString_def)

lemmas handler_fixture_defs = mkLoc_def mkGlob_def mkSpec_def mkLocalizer_def exChart_def
  exManifest_def chartKind_Kind_def ApplyNow_def ApplyLater_def AppFinalizer_def

text \<open>
  C3 (as amended). For a Localization or a Globalization with a deletionTimestamp, the
  handler issues exactly one update, of the object without the engine's finalizer, when
  the policy switch completes (the policy is ApplyLater, or it is ApplyNow and the target
  is not found or its callback returns nil), and it returns the error of that update.
  When the switch returns (an error of the ApplyNow step, or a policy that is not
  supported), the handler issues no update; with a policy that is not supported it
  records a warning event and returns nil.
\<close>

theorem handler_finalizer_removal:
  "(DeletionTimestamp loc \<noteq> None \<longrightarrow>
      filter isUpdate (fst (handleLocalization l loc)) =
        (if switchCompletes l (locSpec loc)
         then [LocalizationUpdate (metaNamespace loc) (withoutFinalizer loc)] else [])
      \<and> (switchCompletes l (locSpec loc) \<longrightarrow>
           snd (handleLocalization l loc) =
             updateLocalization l (metaNamespace loc) (withoutFinalizer loc)))
   \<and> (DeletionTimestamp glob \<noteq> None \<longrightarrow>
      filter isUpdate (fst (handleGlobalization l glob)) =
        (if switchCompletes l (globSpec glob)
         then [GlobalizationUpdate (withoutFinalizer glob)] else [])
      \<and> (switchCompletes l (globSpec glob) \<longrightarrow>
           snd (handleGlobalization l glob) = updateGlobalization l (withoutFinalizer glob)))
   \<and> AppFinalizer \<notin> set (Finalizers (withoutFinalizer loc))
   \<and> AppFinalizer \<notin> set (Finalizers (withoutFinalizer glob))
   \<and> (OverridePolicy (locSpec loc) \<noteq> ApplyNow \<and> OverridePolicy (locSpec loc) \<noteq> ApplyLater \<longrightarrow>
        handleLocalization l loc =
          ([WarningEvent ''InvalidOverridePolicy''
              (''unsupported OverridePolicy '' @ OverridePolicy (locSpec loc))], None))
   \<and> (OverridePolicy (globSpec glob) \<noteq> ApplyNow \<and> OverridePolicy (globSpec glob) \<noteq> ApplyLater \<longrightarrow>
        handleGlobalization l glob =
          ([WarningEvent ''InvalidOverridePolicy''
              (''unsupported OverridePolicy '' @ OverridePolicy (globSpec glob))], None))"
proof -
  have "OverridePolicy (locSpec loc) \<noteq> ApplyNow \<and> OverridePolicy (locSpec loc) \<noteq> ApplyLater \<longrightarrow>
        handleLocalization l loc =
          ([WarningEvent ''InvalidOverridePolicy''
              (''unsupported OverridePolicy '' @ OverridePolicy (locSpec loc))], None)"
    by (simp add: handleLocalization_def)
  moreover have "OverridePolicy (globSpec glob) \<noteq> ApplyNow \<and> OverridePolicy (globSpec glob) \<noteq> ApplyLater \<longrightarrow>
        handleGlobalization l glob =
          ([WarningEvent ''InvalidOverridePolicy''
              (''unsupported OverridePolicy '' @ OverridePolicy (globSpec glob))], None)"
    by (simp add: handleGlobalization_def)
  ultimately show ?thesis
    using handleLocalization_pending [of loc l] handleGlobalization_pending [of glob l]
      withoutFinalizer_Finalizers [of loc] withoutFinalizer_Finalizers [of glob]
    by blast
qed

theorem handler_finalizer_removal_witness:
  "DeletionTimestamp locNoTarget = Some 9 \<and> DeletionTimestamp globLater = Some 9
   \<and> switchCompletes (mkLocalizer [] [] None) (locSpec locNoTarget)
   \<and> switchCompletes (mkLocalizer [] [] None) (globSpec globLater)
   \<and> Finalizers locNoTarget = [AppFinalizer, ''other'']
   \<and> Finalizers (withoutFinalizer locNoTarget) = [''other'']
   \<and> filter isUpdate (fst (handleLocalization (mkLocalizer [] [] None) locNoTarget))
        = [LocalizationUpdate ''ns1'' (withoutFinalizer locNoTarget)]
   \<and> snd (handleLocalization (mkLocalizer [] [] None) locNoTarget) = None
   \<and> filter isUpdate (fst (handleGlobalization (mkLocalizer [] [] None) globLater))
        = [GlobalizationUpdate (withoutFinalizer globLater)]
   \<and> snd (handleGlobalization (mkLocalizer [] [] None) globLater) = None"
proof -
  let ?l = "mkLocalizer [] [] None"
  have d: "DeletionTimestamp locNoTarget = Some 9" "DeletionTimestamp globLater = Some 9"
    by (simp_all add: handler_fixture_defs
        locNoTarget_def globLater_def)
  have c: "switchCompletes ?l (locSpec locNoTarget)" "switchCompletes ?l (globSpec globLater)"
    by (simp_all add: switchCompletes_def IsNotFound_def handler_fixture_defs
        locNoTarget_def globLater_def)
  have f: "Finalizers locNoTarget = [AppFinalizer, ''other'']"
    "Finalizers (withoutFinalizer locNoTarget) = [''other'']"
    by (simp_all add: withoutFinalizer_def RemoveString_def handler_fixture_defs
        locNoTarget_def globLater_def)
  have n: "metaNamespace locNoTarget = ''ns1''"
    "updateLocalization ?l ''ns1'' (withoutFinalizer locNoTarget) = None"
    "updateGlobalization ?l (withoutFinalizer globLater) = None"
    by (simp_all add: locNoTarget_def mkLoc_def mkLocalizer_def)
  show ?thesis
    using handler_finalizer_removal [of locNoTarget ?l globLater]
    by (simp add: d c f n)
qed

text \<open>
  The claim as it was stated fails for a policy that is not supported: the Localization
  \<open>locBadPolicy\<close> is pending deletion and holds the finalizer, and the handler only
  records the warning event and returns nil.
\<close>

theorem handler_unsupported_policy_counterexample:
  "DeletionTimestamp locBadPolicy = Some 9
   \<and> AppFinalizer \<in> set (Finalizers locBadPolicy)
   \<and> handleLocalization (mkLocalizer [] [] None) locBadPolicy =
       ([WarningEvent ''InvalidOverridePolicy'' ''unsupported OverridePolicy Sometime''], None)"
  by (simp add: handleLocalization_def handler_fixture_defs locBadPolicy_def)

text \<open>
  C7 (as amended). For a declaration with the policy ApplyNow whose target does not exist
  (the chart lookup returns a not-found error, or the manifest selector matches nothing),
  the handler invokes no callback. It returns nil when the declaration is not pending
  deletion; when it is, the handler issues the update that removes the finalizer and
  returns the error of that update.
\<close>

theorem handler_target_absent:
  "(OverridePolicy (locSpec loc) = ApplyNow \<and> targetAbsent l (locSpec loc) \<longrightarrow>
      handleLocalization l loc =
        (if DeletionTimestamp loc = None then ([], None)
         else ([LocalizationUpdate (metaNamespace loc) (withoutFinalizer loc)],
               updateLocalization l (metaNamespace loc) (withoutFinalizer loc))))
   \<and> (OverridePolicy (globSpec glob) = ApplyNow \<and> targetAbsent l (globSpec glob) \<longrightarrow>
      handleGlobalization l glob =
        (if DeletionTimestamp glob = None then ([], None)
         else ([GlobalizationUpdate (withoutFinalizer glob)],
               updateGlobalization l (withoutFinalizer glob))))"
proof -
  have "handleLocalization l loc = finishLocalization l loc []"
    if "OverridePolicy (locSpec loc) = ApplyNow" "targetAbsent l (locSpec loc)"
    using that
    by (auto simp: handleLocalization_def targetAbsent_def ListManifestsBySelector_def
        split: sum.splits if_splits)
  moreover have "handleGlobalization l glob = finishGlobalization l glob []"
    if "OverridePolicy (globSpec glob) = ApplyNow" "targetAbsent l (globSpec glob)"
    using that
    by (auto simp: handleGlobalization_def targetAbsent_def ListManifestsBySelector_def
        split: sum.splits if_splits)
  moreover have "finishLocalization l loc [] =
        (if DeletionTimestamp loc = None then ([], None)
         else ([LocalizationUpdate (metaNamespace loc) (withoutFinalizer loc)],
               updateLocalization l (metaNamespace loc) (withoutFinalizer loc)))"
    using finishLocalization_pending [of loc l "[]"]
    by (auto simp: finishLocalization_def)
  moreover have "finishGlobalization l glob [] =
        (if DeletionTimestamp glob = None then ([], None)
         else ([GlobalizationUpdate (withoutFinalizer glob)],
               updateGlobalization l (withoutFinalizer glob)))"
    using finishGlobalization_pending [of glob l "[]"]
    by (auto simp: finishGlobalization_def)
  ultimately show ?thesis by simp
qed

theorem handler_target_absent_witness:
  "OverridePolicy (locSpec locNoTarget) = ApplyNow
   \<and> targetAbsent (mkLocalizer [] [] None) (locSpec locNoTarget)
   \<and> OverridePolicy (globSpec globNoTarget) = ApplyNow
   \<and> targetAbsent (mkLocalizer [] [] None) (globSpec globNoTarget)
   \<and> handleLocalization (mkLocalizer [] [] None) locNoTarget
       = ([LocalizationUpdate ''ns1'' (withoutFinalizer locNoTarget)], None)
   \<and> handleGlobalization (mkLocalizer [] [] None) globNoTarget
       = ([GlobalizationUpdate (withoutFinalizer globNoTarget)], None)
   \<and> handleLocalization (mkLocalizer [] [] None) (locNoTarget\<lparr>DeletionTimestamp := None\<rparr>)
       = ([], None)"
proof -
  let ?l = "mkLocalizer [] [] None"
  let ?loc' = "locNoTarget\<lparr>DeletionTimestamp := None\<rparr>"
  have p: "OverridePolicy (locSpec locNoTarget) = ApplyNow"
    "OverridePolicy (globSpec globNoTarget) = ApplyNow"
    "OverridePolicy (locSpec ?loc') = ApplyNow"
    by (simp_all add: handler_fixture_defs
        locNoTarget_def globNoTarget_def)
  have t: "targetAbsent ?l (locSpec locNoTarget)" "targetAbsent ?l (globSpec globNoTarget)"
    "targetAbsent ?l (locSpec ?loc')"
    by (simp_all add: targetAbsent_def IsNotFound_def Feed.truncate_def handler_fixture_defs
        locNoTarget_def globNoTarget_def)
  have d: "DeletionTimestamp locNoTarget = Some 9" "DeletionTimestamp globNoTarget = Some 9"
    "DeletionTimestamp ?loc' = None"
    by (simp_all add: handler_fixture_defs
        locNoTarget_def globNoTarget_def)
  have n: "metaNamespace locNoTarget = ''ns1''"
    "updateLocalization ?l ''ns1'' (withoutFinalizer locNoTarget) = None"
    "updateGlobalization ?l (withoutFinalizer globNoTarget) = None"
    by (simp_all add: locNoTarget_def mkLoc_def mkLocalizer_def)
  show ?thesis
    using handler_target_absent [of locNoTarget ?l globNoTarget]
      handler_target_absent [of ?loc' ?l globNoTarget]
    by (simp add: p t d n)
qed

text \<open>
  The claim as it was stated fails for a declaration pending deletion: the chart of
  \<open>locNoTarget\<close> does not exist, the update that removes the finalizer fails, and the
  handler returns its error.
\<close>

theorem handler_target_absent_counterexample:
  "OverridePolicy (locSpec locNoTarget) = ApplyNow
   \<and> Kind (locSpec locNoTarget) = chartKind_Kind
   \<and> chartLister (mkLocalizer [] [] (Some (OtherError ''conflict'')))
        (Namespace (locSpec locNoTarget)) (Name (locSpec locNoTarget))
       = Inl (NotFound ''helmcharts'' ''absent'')
   \<and> snd (handleLocalization (mkLocalizer [] [] (Some (OtherError ''conflict''))) locNoTarget)
       = Some (OtherError ''conflict'')"
  by (simp add: handleLocalization_def finishLocalization_def IsNotFound_def Let_def
      handler_fixture_defs locNoTarget_def)

section \<open>The Description mutator\<close>

lemma helmLoop_snd:
  "snd (helmLoop p l ns idx cs (raw, errs)) = errs @ errorsOf (map (helmEntry p l ns) cs)"
  by (induction cs arbitrary: idx raw errs) (auto simp: helmEntry_def split: sum.splits)

lemma helmLoop_length:
  "length (fst (helmLoop p l ns idx cs (raw, errs))) = length raw"
  by (induction cs arbitrary: idx raw errs) (auto split: sum.splits)

lemma helmLoop_nth:
  "i < length raw \<Longrightarrow>
     fst (helmLoop p l ns idx cs (raw, errs)) ! i =
       (if idx \<le> i \<and> i < idx + length cs
        then slotAfter (raw ! i) (helmEntry p l ns (cs ! (i - idx))) else raw ! i)"
proof (induction cs arbitrary: idx raw errs)
  case Nil
  then show ?case by auto
next
  case (Cons c cs)
  show ?case
  proof (cases "helmEntry p l ns c")
    case (Inl err)
    then have step: "helmLoop p l ns idx (c # cs) (raw, errs) =
        helmLoop p l ns (Suc idx) cs (raw, errs @ [err])"
      by (auto simp: helmEntry_def split: sum.splits)
    show ?thesis
      using Cons.prems Inl
      by (auto simp: step Cons.IH nth_Cons' Suc_diff_Suc not_less_eq_eq simp del: helmLoop.simps)
  next
    case (Inr result)
    then have step: "helmLoop p l ns idx (c # cs) (raw, errs) =
        helmLoop p l ns (Suc idx) cs (raw[idx := result], errs)"
      by (auto simp: helmEntry_def split: sum.splits)
    show ?thesis
      using Cons.prems Inr
      by (auto simp: step Cons.IH nth_Cons' nth_list_update Suc_diff_Suc not_less_eq_eq
          simp del: helmLoop.simps)
  qed
qed

lemma genericLoop_snd:
  "snd (genericLoop p u l ns idx rs (raw, errs)) = errs @ errorsOf (map (genericEntry p u l ns) rs)"
  by (induction rs arbitrary: idx raw errs) (auto simp: genericEntry_def split: sum.splits)

lemma genericLoop_length:
  "length (fst (genericLoop p u l ns idx rs (raw, errs))) = length raw"
  by (induction rs arbitrary: idx raw errs) (auto split: sum.splits)

lemma genericLoop_nth:
  "i < length raw \<Longrightarrow>
     fst (genericLoop p u l ns idx rs (raw, errs)) ! i =
       (if idx \<le> i \<and> i < idx + length rs
        then slotAfter (raw ! i) (genericEntry p u l ns (rs ! (i - idx))) else raw ! i)"
proof (induction rs arbitrary: idx raw errs)
  case Nil
  then show ?case by auto
next
  case (Cons r rs)
  show ?case
  proof (cases "genericEntry p u l ns r")
    case (Inl err)
    then have step: "genericLoop p u l ns idx (r # rs) (raw, errs) =
        genericLoop p u l ns (Suc idx) rs (raw, errs @ [err])"
      by (auto simp: genericEntry_def split: sum.splits)
    show ?thesis
      using Cons.prems Inl
      by (auto simp: step Cons.IH nth_Cons' Suc_diff_Suc not_less_eq_eq simp del: genericLoop.simps)
  next
    case (Inr result)
    then have step: "genericLoop p u l ns idx (r # rs) (raw, errs) =
        genericLoop p u l ns (Suc idx) rs (raw[idx := result], errs)"
      by (auto simp: genericEntry_def split: sum.splits)
    show ?thesis
      using Cons.prems Inr
      by (auto simp: step Cons.IH nth_Cons' nth_list_update Suc_diff_Suc not_less_eq_eq
          simp del: genericLoop.simps)
  qed
qed

text \<open>What the call returns in each of the two supported modes.\<close>

lemma ApplyOverridesToDescription_Helm:
  assumes "Deployer (descSpec desc) = DescriptionHelmDeployer"
  shows "ApplyOverridesToDescription p u l desc =
    (desc\<lparr>descSpec := (descSpec desc)
        \<lparr>Raw := map (\<lambda>c. slotAfter [] (helmEntry p l (metaNamespace desc) c))
                  (Charts (descSpec desc))\<rparr>\<rparr>,
     NewAggregate (errorsOf (map (helmEntry p l (metaNamespace desc)) (Charts (descSpec desc)))))"
proof -
  let ?cs = "Charts (descSpec desc)"
  let ?res = "helmLoop p l (metaNamespace desc) 0 ?cs (replicate (length ?cs) [], [])"
  have "fst ?res = map (\<lambda>c. slotAfter [] (helmEntry p l (metaNamespace desc) c)) ?cs"
    by (rule nth_equalityI) (simp_all add: helmLoop_length helmLoop_nth)
  moreover have "snd ?res = errorsOf (map (helmEntry p l (metaNamespace desc)) ?cs)"
    by (simp add: helmLoop_snd)
  ultimately show ?thesis
    using assms by (simp add: ApplyOverridesToDescription_def case_prod_unfold)
qed

lemma ApplyOverridesToDescription_Generic:
  assumes "Deployer (descSpec desc) = DescriptionGenericDeployer"
  shows "ApplyOverridesToDescription p u l desc =
    (desc\<lparr>descSpec := (descSpec desc)
        \<lparr>Raw := map (\<lambda>r. slotAfter r (genericEntry p u l (metaNamespace desc) r))
                  (Raw (descSpec desc))\<rparr>\<rparr>,
     NewAggregate (errorsOf (map (genericEntry p u l (metaNamespace desc)) (Raw (descSpec desc)))))"
proof -
  let ?rs = "Raw (descSpec desc)"
  let ?res = "genericLoop p u l (metaNamespace desc) 0 ?rs (?rs, [])"
  have "fst ?res = map (\<lambda>r. slotAfter r (genericEntry p u l (metaNamespace desc) r)) ?rs"
    by (rule nth_equalityI) (simp_all add: genericLoop_length genericLoop_nth)
  moreover have "snd ?res = errorsOf (map (genericEntry p u l (metaNamespace desc)) ?rs)"
    by (simp add: genericLoop_snd)
  moreover have "DescriptionGenericDeployer \<noteq> DescriptionHelmDeployer"
    by (simp add: DescriptionGenericDeployer_def DescriptionHelmDeployer_def)
  ultimately show ?thesis
    using assms by (simp add: ApplyOverridesToDescription_def case_prod_unfold)
qed

lemmas description_fixture_defs = mkDescription_def DescriptionHelmDeployer_def
  DescriptionGenericDeployer_def

lemma helmEntry_nginx:
  "helmEntry exPatcher (mkLocalizer [globNew] [locOne] None) ''ns1''
     \<lparr>crNamespace = ''default'', crName = ''nginx''\<rparr> = Inr '' bd''"
  by (simp add: helmEntry_def getOverrides_def resolveUID_def overridesOf_def SliceStable_def
      exPatcher_def fixture_defs
      globNew_def locOne_def ovB_def ovD_def)

lemma helmEntry_absent:
  "helmEntry exPatcher (mkLocalizer [globNew] [locOne] None) ''ns1''
     \<lparr>crNamespace = ''default'', crName = ''absent''\<rparr> = Inl (NotFound ''helmcharts'' ''absent'')"
  by (simp add: helmEntry_def getOverrides_def resolveUID_def fixture_defs)

lemma genericEntry_web:
  "genericEntry exPatcher exDecoder (mkLocalizer [globNew] [locOne] None) ''ns1'' ''web''
     = Inr ''weba''"
  by (simp add: genericEntry_def exDecoder_def getOverrides_def resolveUID_def overridesOf_def
      ListManifestsBySelector_def SliceStable_def exPatcher_def fixture_defs)

lemma genericEntry_junk:
  "genericEntry exPatcher exDecoder (mkLocalizer [globNew] [locOne] None) ''ns1'' ''junk''
     = Inl (OtherError ''invalid json'')"
  by (simp add: genericEntry_def exDecoder_def)

lemma genericEntry_gone:
  "genericEntry exPatcher exDecoder (mkLocalizer [globNew] [locOne] None) ''ns1'' ''gone''
     = Inl (NotFound ''Deployment'' ''gone'')"
  by (simp add: genericEntry_def exDecoder_def getOverrides_def resolveUID_def
      ListManifestsBySelector_def fixture_defs)

text \<open>
  C5. In each supported deployer mode the call processes every entry: the slot of each
  entry whose overrides are resolved and applied holds the patched payload, whatever
  happened to the other entries, and the returned error is nil when no entry failed and
  otherwise the aggregate of the errors of the failed entries, in order.
\<close>

theorem ApplyOverridesToDescription_failure_isolation:
  "(Deployer (descSpec desc) = DescriptionHelmDeployer \<longrightarrow>
      snd (ApplyOverridesToDescription p u l desc) =
        (if errorsOf (map (helmEntry p l (metaNamespace desc)) (Charts (descSpec desc))) = []
         then None
         else Some (Aggregate
                (errorsOf (map (helmEntry p l (metaNamespace desc)) (Charts (descSpec desc))))))
      \<and> length (Raw (descSpec (fst (ApplyOverridesToDescription p u l desc))))
          = length (Charts (descSpec desc))
      \<and> (\<forall>i result. i < length (Charts (descSpec desc))
            \<and> helmEntry p l (metaNamespace desc) (Charts (descSpec desc) ! i) = Inr result
          \<longrightarrow> Raw (descSpec (fst (ApplyOverridesToDescription p u l desc))) ! i = result))
   \<and> (Deployer (descSpec desc) = DescriptionGenericDeployer \<longrightarrow>
      snd (ApplyOverridesToDescription p u l desc) =
        (if errorsOf (map (genericEntry p u l (metaNamespace desc)) (Raw (descSpec desc))) = []
         then None
         else Some (Aggregate
                (errorsOf (map (genericEntry p u l (metaNamespace desc)) (Raw (descSpec desc))))))
      \<and> length (Raw (descSpec (fst (ApplyOverridesToDescription p u l desc))))
          = length (Raw (descSpec desc))
      \<and> (\<forall>i result. i < length (Raw (descSpec desc))
            \<and> genericEntry p u l (metaNamespace desc) (Raw (descSpec desc) ! i) = Inr result
          \<longrightarrow> Raw (descSpec (fst (ApplyOverridesToDescription p u l desc))) ! i = result))"
proof (intro conjI impI allI)
  assume h: "Deployer (descSpec desc) = DescriptionHelmDeployer"
  show "snd (ApplyOverridesToDescription p u l desc) =
        (if errorsOf (map (helmEntry p l (metaNamespace desc)) (Charts (descSpec desc))) = []
         then None
         else Some (Aggregate
                (errorsOf (map (helmEntry p l (metaNamespace desc)) (Charts (descSpec desc))))))"
    by (simp add: ApplyOverridesToDescription_Helm [OF h] NewAggregate_def)
  show "length (Raw (descSpec (fst (ApplyOverridesToDescription p u l desc))))
          = length (Charts (descSpec desc))"
    by (simp add: ApplyOverridesToDescription_Helm [OF h])
next
  fix i result
  assume h: "Deployer (descSpec desc) = DescriptionHelmDeployer"
    and "i < length (Charts (descSpec desc))
          \<and> helmEntry p l (metaNamespace desc) (Charts (descSpec desc) ! i) = Inr result"
  then show "Raw (descSpec (fst (ApplyOverridesToDescription p u l desc))) ! i = result"
    by (simp add: ApplyOverridesToDescription_Helm [OF h])
next
  assume h: "Deployer (descSpec desc) = DescriptionGenericDeployer"
  show "snd (ApplyOverridesToDescription p u l desc) =
        (if errorsOf (map (genericEntry p u l (metaNamespace desc)) (Raw (descSpec desc))) = []
         then None
         else Some (Aggregate
                (errorsOf (map (genericEntry p u l (metaNamespace desc)) (Raw (descSpec desc))))))"
    by (simp add: ApplyOverridesToDescription_Generic [OF h] NewAggregate_def)
  show "length (Raw (descSpec (fst (ApplyOverridesToDescription p u l desc))))
          = length (Raw (descSpec desc))"
    by (simp add: ApplyOverridesToDescription_Generic [OF h])
next
  fix i result
  assume h: "Deployer (descSpec desc) = DescriptionGenericDeployer"
    and "i < length (Raw (descSpec desc))
          \<and> genericEntry p u l (metaNamespace desc) (Raw (descSpec desc) ! i) = Inr result"
  then show "Raw (descSpec (fst (ApplyOverridesToDescription p u l desc))) ! i = result"
    by (simp add: ApplyOverridesToDescription_Generic [OF h])
qed

theorem ApplyOverridesToDescription_failure_isolation_witness:
  "Deployer (descSpec helmDesc) = DescriptionHelmDeployer
   \<and> snd (ApplyOverridesToDescription exPatcher exDecoder
             (mkLocalizer [globNew] [locOne] None) helmDesc)
       = Some (Aggregate [NotFound ''helmcharts'' ''absent''])
   \<and> Raw (descSpec (fst (ApplyOverridesToDescription exPatcher exDecoder
             (mkLocalizer [globNew] [locOne] None) helmDesc))) ! 2 = '' bd''
   \<and> Deployer (descSpec genericDesc) = DescriptionGenericDeployer
   \<and> snd (ApplyOverridesToDescription exPatcher exDecoder
             (mkLocalizer [globNew] [locOne] None) genericDesc)
       = Some (Aggregate [OtherError ''invalid json'', NotFound ''Deployment'' ''gone''])
   \<and> Raw (descSpec (fst (ApplyOverridesToDescription exPatcher exDecoder
             (mkLocalizer [globNew] [locOne] None) genericDesc))) ! 0 = ''weba''"
proof -
  let ?l = "mkLocalizer [globNew] [locOne] None"
  have h: "Deployer (descSpec helmDesc) = DescriptionHelmDeployer"
    and g: "Deployer (descSpec genericDesc) = DescriptionGenericDeployer"
    by (simp_all add: description_fixture_defs helmDesc_def genericDesc_def)
  have ns: "metaNamespace helmDesc = ''ns1''" "metaNamespace genericDesc = ''ns1''"
    by (simp_all add: description_fixture_defs helmDesc_def genericDesc_def)
  have cs: "Charts (descSpec helmDesc) =
      [\<lparr>crNamespace = ''default'', crName = ''nginx''\<rparr>,
       \<lparr>crNamespace = ''default'', crName = ''absent''\<rparr>,
       \<lparr>crNamespace = ''default'', crName = ''nginx''\<rparr>]"
    and rs: "Raw (descSpec genericDesc) = [''web'', ''junk'', ''gone'']"
    by (simp_all add: description_fixture_defs helmDesc_def genericDesc_def)
  note T1 = ApplyOverridesToDescription_failure_isolation
    [where desc = helmDesc and p = exPatcher and u = exDecoder and l = "?l", THEN conjunct1, THEN mp, OF h]
  note T2 = ApplyOverridesToDescription_failure_isolation
    [where desc = genericDesc and p = exPatcher and u = exDecoder and l = "?l", THEN conjunct2, THEN mp, OF g]
  have e1: "snd (ApplyOverridesToDescription exPatcher exDecoder ?l helmDesc)
      = Some (Aggregate [NotFound ''helmcharts'' ''absent''])"
    using T1 [THEN conjunct1] by (simp add: ns cs helmEntry_nginx helmEntry_absent genericEntry_web
        genericEntry_junk genericEntry_gone)
  have s1: "Raw (descSpec (fst (ApplyOverridesToDescription exPatcher exDecoder ?l helmDesc))) ! 2
      = '' bd''"
    using T1 [THEN conjunct2, THEN conjunct2, THEN spec, THEN spec, THEN mp, of 2 "'' bd''"]
    by (simp add: ns cs helmEntry_nginx helmEntry_absent genericEntry_web
        genericEntry_junk genericEntry_gone)
  have e2: "snd (ApplyOverridesToDescription exPatcher exDecoder ?l genericDesc)
      = Some (Aggregate [OtherError ''invalid json'', NotFound ''Deployment'' ''gone''])"
    using T2 [THEN conjunct1] by (simp add: ns rs helmEntry_nginx helmEntry_absent genericEntry_web
        genericEntry_junk genericEntry_gone)
  have s2: "Raw (descSpec (fst (ApplyOverridesToDescription exPatcher exDecoder ?l genericDesc))) ! 0
      = ''weba''"
    using T2 [THEN conjunct2, THEN conjunct2, THEN spec, THEN spec, THEN mp, of 0 "''weba''"]
    by (simp add: ns rs helmEntry_nginx helmEntry_absent genericEntry_web
        genericEntry_junk genericEntry_gone)
  show ?thesis using h g e1 s1 e2 s2 by simp
qed

text \<open>
  C9. For a deployer mode that is neither the Helm nor the generic one, the call returns
  the error "unsupported deployer" and the Description as it was; the patch engine, the
  decoder and the listers play no part in the result.
\<close>

theorem ApplyOverridesToDescription_unsupported_deployer:
  assumes "Deployer (descSpec desc) \<noteq> DescriptionHelmDeployer"
    and "Deployer (descSpec desc) \<noteq> DescriptionGenericDeployer"
  shows "ApplyOverridesToDescription p u l desc =
           (desc, Some (OtherError (''unsupported deployer '' @ Deployer (descSpec desc))))
         \<and> ApplyOverridesToDescription p' u' l' desc = ApplyOverridesToDescription p u l desc"
  using assms by (simp add: ApplyOverridesToDescription_def)

theorem ApplyOverridesToDescription_unsupported_deployer_witness:
  "Deployer (descSpec (mkDescription ''Kustomize'' [\<lparr>crNamespace = ''default'', crName = ''nginx''\<rparr>] [''web'']))
     \<noteq> DescriptionHelmDeployer
   \<and> Deployer (descSpec (mkDescription ''Kustomize'' [\<lparr>crNamespace = ''default'', crName = ''nginx''\<rparr>] [''web'']))
     \<noteq> DescriptionGenericDeployer
   \<and> ApplyOverridesToDescription exPatcher exDecoder (mkLocalizer [globNew] [locOne] None)
       (mkDescription ''Kustomize'' [\<lparr>crNamespace = ''default'', crName = ''nginx''\<rparr>] [''web''])
     = (mkDescription ''Kustomize'' [\<lparr>crNamespace = ''default'', crName = ''nginx''\<rparr>] [''web''],
        Some (OtherError ''unsupported deployer Kustomize''))"
proof -
  let ?d = "mkDescription ''Kustomize'' [\<lparr>crNamespace = ''default'', crName = ''nginx''\<rparr>] [''web'']"
  have a: "Deployer (descSpec ?d) \<noteq> DescriptionHelmDeployer"
    and b: "Deployer (descSpec ?d) \<noteq> DescriptionGenericDeployer"
    by (simp_all add: description_fixture_defs)
  have d: "Deployer (descSpec ?d) = ''Kustomize''" by (simp add: mkDescription_def)
  show ?thesis
    using a b ApplyOverridesToDescription_unsupported_deployer [OF a b,
        of exPatcher exDecoder "mkLocalizer [globNew] [locOne] None" exPatcher exDecoder
          "mkLocalizer [globNew] [locOne] None"]
    by (simp add: d)
qed

text \<open>
  C10. The slot of an entry whose override computation fails: in Helm mode it is empty
  (\<open>Spec.Raw\<close> is allocated anew and the slot is never written), in generic mode it
  holds the bytes it held before the call.
\<close>

theorem ApplyOverridesToDescription_failed_slot:
  "(Deployer (descSpec desc) = DescriptionHelmDeployer \<longrightarrow>
      (\<forall>i err. i < length (Charts (descSpec desc))
            \<and> helmEntry p l (metaNamespace desc) (Charts (descSpec desc) ! i) = Inl err
          \<longrightarrow> Raw (descSpec (fst (ApplyOverridesToDescription p u l desc))) ! i = []))
   \<and> (Deployer (descSpec desc) = DescriptionGenericDeployer \<longrightarrow>
      (\<forall>i err. i < length (Raw (descSpec desc))
            \<and> genericEntry p u l (metaNamespace desc) (Raw (descSpec desc) ! i) = Inl err
          \<longrightarrow> Raw (descSpec (fst (ApplyOverridesToDescription p u l desc))) ! i
                = Raw (descSpec desc) ! i))"
proof (intro conjI impI allI)
  fix i err
  assume h: "Deployer (descSpec desc) = DescriptionHelmDeployer"
    and "i < length (Charts (descSpec desc))
          \<and> helmEntry p l (metaNamespace desc) (Charts (descSpec desc) ! i) = Inl err"
  then show "Raw (descSpec (fst (ApplyOverridesToDescription p u l desc))) ! i = []"
    by (simp add: ApplyOverridesToDescription_Helm [OF h])
next
  fix i err
  assume h: "Deployer (descSpec desc) = DescriptionGenericDeployer"
    and "i < length (Raw (descSpec desc))
          \<and> genericEntry p u l (metaNamespace desc) (Raw (descSpec desc) ! i) = Inl err"
  then show "Raw (descSpec (fst (ApplyOverridesToDescription p u l desc))) ! i
      = Raw (descSpec desc) ! i"
    by (simp add: ApplyOverridesToDescription_Generic [OF h])
qed

theorem ApplyOverridesToDescription_failed_slot_witness:
  "Raw (descSpec helmDesc) = [''old'']
   \<and> helmEntry exPatcher (mkLocalizer [globNew] [locOne] None) (metaNamespace helmDesc)
       (Charts (descSpec helmDesc) ! 1) = Inl (NotFound ''helmcharts'' ''absent'')
   \<and> Raw (descSpec (fst (ApplyOverridesToDescription exPatcher exDecoder
             (mkLocalizer [globNew] [locOne] None) helmDesc))) ! 1 = []
   \<and> genericEntry exPatcher exDecoder (mkLocalizer [globNew] [locOne] None)
       (metaNamespace genericDesc) (Raw (descSpec genericDesc) ! 1)
       = Inl (OtherError ''invalid json'')
   \<and> Raw (descSpec (fst (ApplyOverridesToDescription exPatcher exDecoder
             (mkLocalizer [globNew] [locOne] None) genericDesc))) ! 1 = ''junk''"
proof -
  let ?l = "mkLocalizer [globNew] [locOne] None"
  have h: "Deployer (descSpec helmDesc) = DescriptionHelmDeployer"
    and g: "Deployer (descSpec genericDesc) = DescriptionGenericDeployer"
    by (simp_all add: description_fixture_defs helmDesc_def genericDesc_def)
  have ns: "metaNamespace helmDesc = ''ns1''" "metaNamespace genericDesc = ''ns1''"
    by (simp_all add: description_fixture_defs helmDesc_def genericDesc_def)
  have cs: "Charts (descSpec helmDesc) =
      [\<lparr>crNamespace = ''default'', crName = ''nginx''\<rparr>,
       \<lparr>crNamespace = ''default'', crName = ''absent''\<rparr>,
       \<lparr>crNamespace = ''default'', crName = ''nginx''\<rparr>]"
    and rs: "Raw (descSpec genericDesc) = [''web'', ''junk'', ''gone'']"
    and old: "Raw (descSpec helmDesc) = [''old'']"
    by (simp_all add: description_fixture_defs helmDesc_def genericDesc_def)
  note T1 = ApplyOverridesToDescription_failed_slot
    [where desc = helmDesc and p = exPatcher and u = exDecoder and l = "?l", THEN conjunct1, THEN mp, OF h]
  note T2 = ApplyOverridesToDescription_failed_slot
    [where desc = genericDesc and p = exPatcher and u = exDecoder and l = "?l", THEN conjunct2, THEN mp, OF g]
  have o1: "helmEntry exPatcher ?l (metaNamespace helmDesc) (Charts (descSpec helmDesc) ! 1)
      = Inl (NotFound ''helmcharts'' ''absent'')"
    by (simp add: ns cs helmEntry_nginx helmEntry_absent genericEntry_web
        genericEntry_junk genericEntry_gone)
  have o2: "genericEntry exPatcher exDecoder ?l (metaNamespace genericDesc)
      (Raw (descSpec genericDesc) ! 1) = Inl (OtherError ''invalid json'')"
    by (simp add: ns rs helmEntry_nginx helmEntry_absent genericEntry_web
        genericEntry_junk genericEntry_gone)
  have s1: "Raw (descSpec (fst (ApplyOverridesToDescription exPatcher exDecoder ?l helmDesc))) ! 1
      = []"
    using T1 [THEN spec, THEN spec, THEN mp, of 1 "NotFound ''helmcharts'' ''absent''"] o1
    by (simp add: cs)
  have s2: "Raw (descSpec (fst (ApplyOverridesToDescription exPatcher exDecoder ?l genericDesc))) ! 1
      = ''junk''"
    using T2 [THEN spec, THEN spec, THEN mp, of 1 "OtherError ''invalid json''"] o2
    by (simp add: rs)
  show ?thesis using old o1 s1 o2 s2 by simp
qed

end
